theory Spec2Isabelle
  imports Main
begin

section \<open>The judge server: data model\<close>

text \<open>
  The repository holds two servers: the single-run judge (\<open>handlePython\<close>,
  \<open>handleJS\<close>, ...) and the batch judge (\<open>handleBatchExecution\<close>), both with the
  same \<open>runCommand\<close>. Everything the code does to the outside (the file system, the child
  processes, the clock, the HTTP response) is made explicit: the machine is a value that
  is passed along, every call the code issues is appended to a trace, and what the
  machine answers comes from an environment \<open>os\<close> that the theorems quantify over.
  The calls of \<open>log\<close> are left out: they write to the console only.
\<close>

type_synonym path = string

text \<open>\<open>error.code\<close> of the error Node hands to the callback of \<open>exec\<close>: a number (the
  child's exit code), a string (a system error name) or null.\<close>

datatype js_code = CodeNum int | CodeStr string | CodeNull

record exec_error =
  killed :: bool
  signal :: "string option"
  ecode :: js_code

text \<open>The arguments of the callback of \<open>exec\<close>: \<open>(error, stdout, stderr)\<close>.\<close>

record exec_reply =
  err :: "exec_error option"
  out :: string
  errout :: string

text \<open>The object \<open>runCommand\<close> resolves to. The two synthesized objects of the batch
  server (\<open>{ code: 0, stdout: '', stderr: '' }\<close>) have no \<open>timeMs\<close> field.\<close>

record cmd_result =
  stdout :: string
  stderr :: string
  code :: int
  timeMs :: "int option"

text \<open>A thrown JavaScript error: its name and its message.\<close>

datatype js_error = JsError (err_name: string) (err_message: string)

text \<open>The machine: the directories and files that exist, the clock \<open>Date.now()\<close>, and
  the commands whose processes are running.\<close>

record machine =
  dirs :: "path set"
  store :: "path \<rightharpoonup> string"
  now :: int
  running :: "string set"

text \<open>The calls the server issues, in the order it issues them.\<close>

datatype event =
    Mkdir path
  | WriteFile path string
  | Exec string path nat string
  | Send nat
  | RmTree path

record world =
  mach :: machine
  trace :: "event list"

text \<open>
  The environment. \<open>os_exec m cmd cwd timeout input\<close> is what running the shell command
  does: the callback's arguments and the machine afterwards (the child may change any
  file, takes time, and may leave a process running). \<open>stdin_err m cmd cwd input\<close> says
  whether writing the input to the standard input of that child fails (a child that has
  gone without reading it: \<open>write EPIPE\<close>). The three others say whether a file-system
  call throws on the machine as it is (\<open>None\<close>: it succeeds).
\<close>

record os =
  os_exec :: "machine \<Rightarrow> string \<Rightarrow> path \<Rightarrow> nat \<Rightarrow> string \<Rightarrow> exec_reply \<times> machine"
  stdin_err :: "machine \<Rightarrow> string \<Rightarrow> path \<Rightarrow> string \<Rightarrow> js_error option"
  mkdir_err :: "machine \<Rightarrow> path \<Rightarrow> js_error option"
  write_err :: "machine \<Rightarrow> path \<Rightarrow> js_error option"
  rm_err :: "machine \<Rightarrow> path \<Rightarrow> js_error option"

text \<open>
  How a call can fail to return. \<open>Thrown\<close>: an error is thrown (a promise is rejected),
  which a \<open>catch\<close> block around the call receives. \<open>Uncaught\<close>: an error event with no
  listener; Node ends the server process there, so nothing that the code would have done
  next happens: no response, no \<open>finally\<close> block.
\<close>

datatype fault = Thrown js_error | Uncaught js_error

section \<open>runCommand\<close>

text \<open>The callback of \<open>exec\<close> in \<open>runCommand\<close>, with \<open>timeMs = Date.now() - start\<close>
  already computed.\<close>

definition exec_callback :: "exec_reply \<Rightarrow> int \<Rightarrow> cmd_result" where
  "exec_callback r t =
     (case err r of
        None \<Rightarrow> \<lparr>stdout = out r, stderr = errout r, code = 0, timeMs = Some t\<rparr>
      | Some e \<Rightarrow>
          if killed e \<and> signal e = Some ''SIGTERM''
          then \<lparr>stdout = '''', stderr = ''Time limit exceeded'', code = 124, timeMs = Some t\<rparr>
          else \<lparr>stdout = out r, stderr = errout r,
                code = (case ecode e of CodeNum n \<Rightarrow> n | CodeStr s \<Rightarrow> 0 | CodeNull \<Rightarrow> 0),
                timeMs = Some t\<rparr>)"

text \<open>\<open>runCommand(cmd, cwd, timeoutMs, inputStr = "")\<close>, as far as its promise goes: it reads
  the clock, runs the command in \<open>cwd\<close> with the deadline \<open>timeoutMs\<close> and the input on
  the child's standard input, and the callback of \<open>exec\<close> resolves the promise with its
  object. This is the object and the world at that moment; whether the server lives to
  see it is \<open>await_runCommand\<close> below.\<close>

definition runCommand :: "os \<Rightarrow> string \<Rightarrow> path \<Rightarrow> nat \<Rightarrow> string \<Rightarrow> world \<Rightarrow> cmd_result \<times> world" where
  "runCommand os cmd cwd timeoutMs inputStr w =
     (let start = now (mach w);
          (r, m') = os_exec os (mach w) cmd cwd timeoutMs inputStr
      in (exec_callback r (now m' - start),
          \<lparr>mach = m', trace = trace w @ [Exec cmd cwd timeoutMs inputStr]\<rparr>))"

text \<open>
  \<open>await runCommand(...)\<close>. The last two statements of \<open>runCommand\<close> are
  \<open>if (inputStr) child.stdin.write(inputStr)\<close> and \<open>child.stdin.end()\<close>, and the stream has
  no listener for its error event: when a non-empty input cannot be written, the error is
  uncaught and the server process ends. With an empty input nothing is written and the
  promise resolves. A deadline is a natural number of milliseconds here, as the
  specification types it; \<open>exec\<close> throws only on a negative or fractional one, before it
  starts a child (the promise is then rejected and the handler's \<open>catch\<close> block answers,
  as it does for an error of \<open>writeFileSync\<close>).
\<close>

definition await_runCommand ::
  "os \<Rightarrow> string \<Rightarrow> path \<Rightarrow> nat \<Rightarrow> string \<Rightarrow> world \<Rightarrow> (fault + cmd_result) \<times> world" where
  "await_runCommand os cmd cwd timeoutMs inputStr w =
     (case (if inputStr \<noteq> [] then stdin_err os (mach w) cmd cwd inputStr else None) of
        Some e \<Rightarrow> (Inl (Uncaught e), snd (runCommand os cmd cwd timeoutMs inputStr w))
      | None \<Rightarrow> (Inr (fst (runCommand os cmd cwd timeoutMs inputStr w)),
                 snd (runCommand os cmd cwd timeoutMs inputStr w)))"

section \<open>The file system calls\<close>

text \<open>\<open>path.join(dir, name)\<close> for a directory and a name that need no normalisation (no
  \<open>.\<close>, \<open>..\<close> or doubled separator): an empty name is skipped.\<close>

definition path_join :: "path \<Rightarrow> string \<Rightarrow> path" where
  "path_join d n = (if n = [] then d else d @ ''/'' @ n)"

definition EXEC_DIR :: path where
  "EXEC_DIR = ''/tmp/executions''"

text \<open>A path is under a directory when it is the directory or lies below it.\<close>

definition under :: "path \<Rightarrow> path \<Rightarrow> bool" where
  "under d p = (p = d \<or> take (length d + 1) p = d @ ''/'')"

definition logged :: "event \<Rightarrow> world \<Rightarrow> world" where
  "logged ev w = w\<lparr>trace := trace w @ [ev]\<rparr>"

text \<open>\<open>fs.mkdirSync(dir, { recursive: true })\<close>.\<close>

definition mkdirSync :: "os \<Rightarrow> path \<Rightarrow> world \<Rightarrow> (js_error + unit) \<times> world" where
  "mkdirSync os d w =
     (case mkdir_err os (mach w) d of
        Some e \<Rightarrow> (Inl e, logged (Mkdir d) w)
      | None \<Rightarrow>
          (Inr (), logged (Mkdir d) (w\<lparr>mach := (mach w)\<lparr>dirs := insert d (dirs (mach w))\<rparr>\<rparr>)))"

text \<open>\<open>fs.writeFileSync(p, data, "utf8")\<close>: a later write to the same path overwrites.\<close>

definition writeFileSync :: "os \<Rightarrow> path \<Rightarrow> string \<Rightarrow> world \<Rightarrow> (js_error + unit) \<times> world" where
  "writeFileSync os p data w =
     (case write_err os (mach w) p of
        Some e \<Rightarrow> (Inl e, logged (WriteFile p data) w)
      | None \<Rightarrow>
          (Inr (), logged (WriteFile p data) (w\<lparr>mach := (mach w)\<lparr>store := (store (mach w))(p \<mapsto> data)\<rparr>\<rparr>)))"

text \<open>\<open>try { fs.rmSync(dir, { recursive: true, force: true }) } catch (_) {}\<close>: the error
  is dropped. When the removal fails the model leaves the machine as it was.\<close>

definition rmSync_quiet :: "os \<Rightarrow> path \<Rightarrow> world \<Rightarrow> world" where
  "rmSync_quiet os d w =
     (case rm_err os (mach w) d of
        Some e \<Rightarrow> logged (RmTree d) w
      | None \<Rightarrow>
          logged (RmTree d)
            (w\<lparr>mach := (mach w)\<lparr>dirs := {p \<in> dirs (mach w). \<not> under d p},
                                  store := (\<lambda>p. if under d p then None else store (mach w) p)\<rparr>\<rparr>))"

section \<open>The batch server: handleBatchExecution\<close>

record source_file =
  name :: "string option"
  content :: "string option"

text \<open>A JavaScript string is falsy when it is undefined or empty.\<close>

definition or_empty :: "string option \<Rightarrow> string" where
  "or_empty s = (case s of None \<Rightarrow> [] | Some x \<Rightarrow> x)"

text \<open>Lines 286 to 290 of the batch server: the variable \<open>mainFile\<close>. Nothing reads it
  afterwards.\<close>

definition batch_mainFile :: "string \<Rightarrow> string" where
  "batch_mainFile language =
     (let mainFile = ''main'';
          mainFile = (if language = ''python'' then ''main.py'' else mainFile);
          mainFile = (if language = ''javascript'' \<or> language = ''node'' then ''main.js'' else mainFile);
          mainFile = (if language = ''java'' then ''Main.java'' else mainFile);
          mainFile = (if language = ''cpp'' then ''main.cpp'' else mainFile)
      in mainFile)"

text \<open>The name a file is written under: its own, or the language's default when it is
  undefined or empty. For any other language the name stays what it was, undefined or
  empty.\<close>

definition resolve_name :: "string \<Rightarrow> source_file \<Rightarrow> string option" where
  "resolve_name language f =
     (if or_empty (name f) \<noteq> [] then name f
      else if language = ''cpp'' then Some ''main.cpp''
      else if language = ''python'' then Some ''main.py''
      else if language = ''java'' then Some ''Main.java''
      else if language = ''javascript'' then Some ''main.js''
      else name f)"

text \<open>The loop that writes the files. \<open>path.join\<close> throws a TypeError on an undefined
  name.\<close>

fun write_files :: "os \<Rightarrow> string \<Rightarrow> path \<Rightarrow> source_file list \<Rightarrow> world \<Rightarrow> (js_error + unit) \<times> world" where
  "write_files os language jobDir [] w = (Inr (), w)"
| "write_files os language jobDir (f # fs) w =
     (case resolve_name language f of
        None \<Rightarrow> (Inl (JsError ''TypeError'' ''ERR_INVALID_ARG_TYPE''), w)
      | Some n \<Rightarrow>
          (case writeFileSync os (path_join jobDir n) (or_empty (content f)) w of
             (Inl e, w') \<Rightarrow> (Inl e, w')
           | (Inr u, w') \<Rightarrow> write_files os language jobDir fs w'))"

text \<open>\<open>let compileRes = { code: 0, stdout: '', stderr: '' }\<close>.\<close>

definition no_compile :: cmd_result where
  "no_compile = \<lparr>stdout = [], stderr = [], code = 0, timeMs = None\<rparr>"

text \<open>Step 2 (lines 303 to 315): compile if the language needs it, and choose the run
  command. The result is \<open>(compileRes, runCmd)\<close>. The compile commands get no input, so
  nothing is written to their standard input.\<close>

definition compile_step :: "os \<Rightarrow> string \<Rightarrow> path \<Rightarrow> nat \<Rightarrow> world \<Rightarrow> (cmd_result \<times> string) \<times> world" where
  "compile_step os language jobDir compileTimeout w =
     (if language = ''cpp'' then
        (case runCommand os ''g++ -std=c++17 -O2 -pipe -static -s *.cpp -o main'' jobDir compileTimeout [] w of
           (compileRes, w') \<Rightarrow> ((compileRes, ''./main''), w'))
      else if language = ''java'' then
        (case runCommand os ''javac *.java'' jobDir compileTimeout [] w of
           (compileRes, w') \<Rightarrow> ((compileRes, ''java Main''), w'))
      else if language = ''python'' then ((no_compile, ''python3 main.py''), w)
      else if language = ''javascript'' \<or> language = ''node'' then ((no_compile, ''node main.js''), w)
      else ((no_compile, []), w))"

text \<open>The languages for which that chain runs a compile command.\<close>

definition has_compile_phase :: "string \<Rightarrow> bool" where
  "has_compile_phase language = (language = ''cpp'' \<or> language = ''java'')"

text \<open>Step 3: \<open>for (const input of inputs) { ...; results.push(runRes) }\<close>.\<close>

fun batch_run :: "os \<Rightarrow> string \<Rightarrow> path \<Rightarrow> nat \<Rightarrow> cmd_result list \<Rightarrow> string list \<Rightarrow> world
    \<Rightarrow> (fault + cmd_result list) \<times> world" where
  "batch_run os runCmd jobDir runTimeout results [] w = (Inr results, w)"
| "batch_run os runCmd jobDir runTimeout results (input # inputs) w =
     (case await_runCommand os runCmd jobDir runTimeout input w of
        (Inl f, w') \<Rightarrow> (Inl f, w')
      | (Inr runRes, w') \<Rightarrow> batch_run os runCmd jobDir runTimeout (results @ [runRes]) inputs w')"

record batch_result =
  compile :: cmd_result
  results :: "cmd_result list"

definition handleBatchExecution ::
  "os \<Rightarrow> string \<Rightarrow> path \<Rightarrow> source_file list \<Rightarrow> string list \<Rightarrow> nat \<Rightarrow> nat \<Rightarrow> world
    \<Rightarrow> (fault + batch_result) \<times> world" where
  "handleBatchExecution os language jobDir files inputs compileTimeout runTimeout w =
     (case write_files os language jobDir files w of
        (Inl e, w1) \<Rightarrow> (Inl (Thrown e), w1)
      | (Inr u, w1) \<Rightarrow>
          (case compile_step os language jobDir compileTimeout w1 of
             ((compileRes, runCmd), w2) \<Rightarrow>
               if code compileRes \<noteq> 0
               then (Inr \<lparr>compile = compileRes, results = []\<rparr>, w2)
               else (case batch_run os runCmd jobDir runTimeout [] inputs w2 of
                       (Inl f, w3) \<Rightarrow> (Inl f, w3)
                     | (Inr rs, w3) \<Rightarrow> (Inr \<lparr>compile = compileRes, results = rs\<rparr>, w3))))"

section \<open>The batch server: the route /api/v2/piston/execute\<close>

record request =
  body_language :: "string option"
  body_files :: "source_file list option"
  body_stdin :: "string option"
  body_inputs :: "string list option"
  body_compile_timeout :: "nat option"
  body_run_timeout :: "nat option"

record response_body =
  resp_language :: string
  resp_compile :: "cmd_result option"
  resp_run :: cmd_result
  resp_results :: "cmd_result list"

text \<open>What \<open>res.json\<close> sends: the body with status 200, or \<open>{ error: message }\<close> with
  status 400 or 500. A field of the body is present in the JSON when it is defined.\<close>

datatype response = Ok200 response_body | Err400 string | Err500 string

fun status :: "response \<Rightarrow> nat" where
  "status (Ok200 b) = 200"
| "status (Err400 m) = 400"
| "status (Err500 m) = 500"

definition send :: "response \<Rightarrow> world \<Rightarrow> (fault + response) \<times> world" where
  "send r w = (Inr r, logged (Send (status r)) w)"

text \<open>\<open>String.prototype.toLowerCase\<close> on the ASCII letters; every other character is
  left as it is.\<close>

definition lower_char :: "char \<Rightarrow> char" where
  "lower_char c =
     (case map_of (zip ''ABCDEFGHIJKLMNOPQRSTUVWXYZ'' ''abcdefghijklmnopqrstuvwxyz'') c of
        None \<Rightarrow> c
      | Some l \<Rightarrow> l)"

definition toLowerCase :: "string \<Rightarrow> string" where
  "toLowerCase s = map lower_char s"

definition supported :: "string list" where
  "supported = [''cpp'', ''c++'', ''python'', ''java'', ''javascript'', ''node'', ''js'']"

text \<open>Lines 357 and 358: the names the handler passes on.\<close>

definition normalize :: "string \<Rightarrow> string" where
  "normalize language =
     (let language = (if language = ''c++'' then ''cpp'' else language)
      in if language = ''node'' \<or> language = ''js'' then ''javascript'' else language)"

text \<open>\<open>(Array.isArray(inputs) && inputs.length > 0) ? inputs : [stdin || ""]\<close>.\<close>

definition batchInputs :: "request \<Rightarrow> string list" where
  "batchInputs req =
     (case body_inputs req of
        None \<Rightarrow> [or_empty (body_stdin req)]
      | Some xs \<Rightarrow> if length xs > 0 then xs else [or_empty (body_stdin req)])"

text \<open>\<open>Number(t) || d\<close> for a timeout that is a natural number or absent.\<close>

definition or_default :: "nat option \<Rightarrow> nat \<Rightarrow> nat" where
  "or_default t d = (case t of None \<Rightarrow> d | Some n \<Rightarrow> if n = 0 then d else n)"

text \<open>\<open>err.message || String(err)\<close>.\<close>

definition error_text :: "js_error \<Rightarrow> string" where
  "error_text e =
     (if err_message e \<noteq> [] then err_message e else err_name e)"

text \<open>\<open>{ code: 0, stdout: "", stderr: "" }\<close>, the \<open>run\<close> field when there is no result.\<close>

definition no_run :: cmd_result where
  "no_run = \<lparr>stdout = [], stderr = [], code = 0, timeMs = None\<rparr>"

text \<open>The \<open>try\<close> block with its \<open>catch\<close>: every path on which the server stays alive
  sends one response.\<close>

definition try_block ::
  "os \<Rightarrow> string \<Rightarrow> path \<Rightarrow> source_file list \<Rightarrow> string list \<Rightarrow> nat \<Rightarrow> nat \<Rightarrow> world
    \<Rightarrow> (fault + response) \<times> world" where
  "try_block os language jobDir fs ins compileTimeout runTimeout w =
     (if language \<notin> set supported
      then send (Err400 (''Unsupported language: '' @ language)) w
      else
        (case handleBatchExecution os (normalize language) jobDir fs ins compileTimeout runTimeout w of
           (Inl (Thrown e), w') \<Rightarrow> send (Err500 (error_text e)) w'
         | (Inl (Uncaught e), w') \<Rightarrow> (Inl (Uncaught e), w')
         | (Inr result, w') \<Rightarrow>
             send (Ok200 \<lparr>resp_language = normalize language,
                          resp_compile = Some (compile result),
                          resp_run = (case results result of [] \<Rightarrow> no_run | r # rs \<Rightarrow> r),
                          resp_results = results result\<rparr>) w'))"

text \<open>
  The handler up to the end of its \<open>try\<close> and \<open>catch\<close> blocks, for the job id that
  \<open>uuidv4()\<close> returned. \<open>mkdirSync\<close> stands before the \<open>try\<close>: when it throws, the
  handler's promise is rejected (\<open>Inl (Thrown e)\<close>), nothing is sent and the \<open>finally\<close>
  block is never entered.
\<close>

definition try_catch :: "os \<Rightarrow> string \<Rightarrow> request \<Rightarrow> world \<Rightarrow> (fault + response) \<times> world" where
  "try_catch os jobId req w =
     (let lang = toLowerCase (or_empty (body_language req));
          fs = (case body_files req of None \<Rightarrow> [] | Some xs \<Rightarrow> xs);
          ins = batchInputs req;
          compileTimeout = or_default (body_compile_timeout req) 10000;
          runTimeout = or_default (body_run_timeout req) 3000;
          jobDir = path_join EXEC_DIR jobId
      in case mkdirSync os jobDir w of
           (Inl e, w1) \<Rightarrow> (Inl (Thrown e), w1)
         | (Inr u, w1) \<Rightarrow> try_block os lang jobDir fs ins compileTimeout runTimeout w1)"

text \<open>The whole handler: the \<open>finally\<close> block removes the job directory after the
  response has been sent, and drops the error of a removal that fails. It is not entered
  when \<open>mkdirSync\<close> threw or when the server process has ended.\<close>

definition execute_handler :: "os \<Rightarrow> string \<Rightarrow> request \<Rightarrow> world \<Rightarrow> (fault + response) \<times> world" where
  "execute_handler os jobId req w =
     (case try_catch os jobId req w of
        (Inl f, w1) \<Rightarrow> (Inl f, w1)
      | (Inr resp, w2) \<Rightarrow> (Inr resp, rmSync_quiet os (path_join EXEC_DIR jobId) w2))"

section \<open>The single-run server\<close>

text \<open>\<open>String.prototype.endsWith\<close>.\<close>

definition endsWith :: "string \<Rightarrow> string \<Rightarrow> bool" where
  "endsWith s suffix = (length suffix \<le> length s \<and> drop (length s - length suffix) s = suffix)"

text \<open>\<open>f.name || dflt\<close>: the name the single-run handlers write a file under.\<close>

definition script_name :: "string \<Rightarrow> source_file \<Rightarrow> string" where
  "script_name dflt f = (if or_empty (name f) \<noteq> [] then or_empty (name f) else dflt)"

text \<open>The object a single-run handler returns: \<open>{ compile, run }\<close>, \<open>{ compile }\<close> or
  \<open>{ run }\<close>.\<close>

record single_result =
  sr_compile :: "cmd_result option"
  sr_run :: "cmd_result option"

text \<open>
  The loop of \<open>handlePython\<close> (with \<open>main.py\<close> and \<open>.py\<close>) and of \<open>handleJS\<close> (with
  \<open>main.js\<close> and \<open>.js\<close>): every file is written under its name, and \<open>mainFile\<close> becomes
  the name of each file that ends with the extension.
\<close>

fun write_scripts ::
  "os \<Rightarrow> path \<Rightarrow> string \<Rightarrow> string \<Rightarrow> string \<Rightarrow> source_file list \<Rightarrow> world \<Rightarrow> (js_error + string) \<times> world" where
  "write_scripts os jobDir dflt ext mainFile [] w = (Inr mainFile, w)"
| "write_scripts os jobDir dflt ext mainFile (f # fs) w =
     (let n = script_name dflt f;
          mainFile' = (if endsWith n ext then n else mainFile)
      in case writeFileSync os (path_join jobDir n) (or_empty (content f)) w of
           (Inl e, w') \<Rightarrow> (Inl e, w')
         | (Inr u, w') \<Rightarrow> write_scripts os jobDir dflt ext mainFile' fs w')"

definition handlePython ::
  "os \<Rightarrow> path \<Rightarrow> source_file list \<Rightarrow> string \<Rightarrow> nat \<Rightarrow> world \<Rightarrow> (fault + single_result) \<times> world" where
  "handlePython os jobDir fs input runTimeout w =
     (case write_scripts os jobDir ''main.py'' ''.py'' ''main.py'' fs w of
        (Inl e, w') \<Rightarrow> (Inl (Thrown e), w')
      | (Inr mainFile, w') \<Rightarrow>
          (case await_runCommand os (''python3 '' @ mainFile) jobDir runTimeout input w' of
             (Inl f, w'') \<Rightarrow> (Inl f, w'')
           | (Inr runRes, w'') \<Rightarrow> (Inr \<lparr>sr_compile = None, sr_run = Some runRes\<rparr>, w'')))"

definition handleJS ::
  "os \<Rightarrow> path \<Rightarrow> source_file list \<Rightarrow> string \<Rightarrow> nat \<Rightarrow> world \<Rightarrow> (fault + single_result) \<times> world" where
  "handleJS os jobDir fs input runTimeout w =
     (case write_scripts os jobDir ''main.js'' ''.js'' ''main.js'' fs w of
        (Inl e, w') \<Rightarrow> (Inl (Thrown e), w')
      | (Inr mainFile, w') \<Rightarrow>
          (case await_runCommand os (''node '' @ mainFile) jobDir runTimeout input w' of
             (Inl f, w'') \<Rightarrow> (Inl f, w'')
           | (Inr runRes, w'') \<Rightarrow> (Inr \<lparr>sr_compile = None, sr_run = Some runRes\<rparr>, w'')))"

text \<open>The loop of \<open>handleCPP\<close> (with \<open>main.cpp\<close>) and of \<open>handleJava\<close> (with
  \<open>Main.java\<close>).\<close>

fun write_sources :: "os \<Rightarrow> path \<Rightarrow> string \<Rightarrow> source_file list \<Rightarrow> world \<Rightarrow> (js_error + unit) \<times> world" where
  "write_sources os jobDir dflt [] w = (Inr (), w)"
| "write_sources os jobDir dflt (f # fs) w =
     (case writeFileSync os (path_join jobDir (script_name dflt f)) (or_empty (content f)) w of
        (Inl e, w') \<Rightarrow> (Inl e, w')
      | (Inr u, w') \<Rightarrow> write_sources os jobDir dflt fs w')"

text \<open>The body that \<open>handleCPP\<close> and \<open>handleJava\<close> share: write the files, compile,
  return \<open>{ compile }\<close> when the compile code is not 0, otherwise run and return
  \<open>{ compile, run }\<close>.\<close>

definition compile_and_run ::
  "os \<Rightarrow> path \<Rightarrow> string \<Rightarrow> string \<Rightarrow> string \<Rightarrow> source_file list \<Rightarrow> string \<Rightarrow> nat \<Rightarrow> nat \<Rightarrow> world
    \<Rightarrow> (fault + single_result) \<times> world" where
  "compile_and_run os jobDir dflt compileCmd runCmd fs input compileTimeout runTimeout w =
     (case write_sources os jobDir dflt fs w of
        (Inl e, w1) \<Rightarrow> (Inl (Thrown e), w1)
      | (Inr u, w1) \<Rightarrow>
          (case runCommand os compileCmd jobDir compileTimeout [] w1 of
             (compileRes, w2) \<Rightarrow>
               if code compileRes \<noteq> 0
               then (Inr \<lparr>sr_compile = Some compileRes, sr_run = None\<rparr>, w2)
               else (case await_runCommand os runCmd jobDir runTimeout input w2 of
                       (Inl f, w3) \<Rightarrow> (Inl f, w3)
                     | (Inr runRes, w3) \<Rightarrow>
                         (Inr \<lparr>sr_compile = Some compileRes, sr_run = Some runRes\<rparr>, w3))))"

definition handleCPP ::
  "os \<Rightarrow> path \<Rightarrow> source_file list \<Rightarrow> string \<Rightarrow> nat \<Rightarrow> nat \<Rightarrow> world \<Rightarrow> (fault + single_result) \<times> world" where
  "handleCPP os jobDir fs input compileTimeout runTimeout w =
     compile_and_run os jobDir ''main.cpp'' ''g++ -std=c++17 -O2 -pipe -static -s *.cpp -o main'' ''./main''
       fs input compileTimeout runTimeout w"

definition handleJava ::
  "os \<Rightarrow> path \<Rightarrow> source_file list \<Rightarrow> string \<Rightarrow> nat \<Rightarrow> nat \<Rightarrow> world \<Rightarrow> (fault + single_result) \<times> world" where
  "handleJava os jobDir fs input compileTimeout runTimeout w =
     compile_and_run os jobDir ''Main.java'' ''javac *.java'' ''java Main''
       fs input compileTimeout runTimeout w"

text \<open>The body of a response of the single-run server, \<open>{ language, ...result }\<close>: it has
  the fields that the handler's object has.\<close>

record single_body =
  sb_language :: string
  sb_compile :: "cmd_result option"
  sb_run :: "cmd_result option"

datatype single_response = SingleOk200 single_body | SingleErr400 string | SingleErr500 string

text \<open>The \<open>try\<close> block of the single-run route with its \<open>catch\<close>.\<close>

definition single_try_block ::
  "os \<Rightarrow> string \<Rightarrow> path \<Rightarrow> source_file list \<Rightarrow> string \<Rightarrow> nat \<Rightarrow> nat \<Rightarrow> world
    \<Rightarrow> (fault + single_response) \<times> world" where
  "single_try_block os language jobDir fs input compileTimeout runTimeout w =
     (case (if language = ''cpp'' \<or> language = ''c++''
            then Some (handleCPP os jobDir fs input compileTimeout runTimeout w)
            else if language = ''python''
            then Some (handlePython os jobDir fs input runTimeout w)
            else if language = ''java''
            then Some (handleJava os jobDir fs input compileTimeout runTimeout w)
            else if language = ''javascript'' \<or> language = ''node'' \<or> language = ''js''
            then Some (handleJS os jobDir fs input runTimeout w)
            else None) of
        None \<Rightarrow> (Inr (SingleErr400 (''Unsupported language: '' @ language)), logged (Send 400) w)
      | Some (Inl (Thrown e), w') \<Rightarrow> (Inr (SingleErr500 (error_text e)), logged (Send 500) w')
      | Some (Inl (Uncaught e), w') \<Rightarrow> (Inl (Uncaught e), w')
      | Some (Inr result, w') \<Rightarrow>
          (Inr (SingleOk200 \<lparr>sb_language = language, sb_compile = sr_compile result,
                              sb_run = sr_run result\<rparr>),
           logged (Send 200) w'))"

text \<open>The handler of the single-run route: the same frame as the batch one, with the
  field \<open>stdin\<close> as the only input and 5000 as the default compile deadline.\<close>

definition single_handler :: "os \<Rightarrow> string \<Rightarrow> request \<Rightarrow> world \<Rightarrow> (fault + single_response) \<times> world" where
  "single_handler os jobId req w =
     (let lang = toLowerCase (or_empty (body_language req));
          fs = (case body_files req of None \<Rightarrow> [] | Some xs \<Rightarrow> xs);
          input = or_empty (body_stdin req);
          compileTimeout = or_default (body_compile_timeout req) 5000;
          runTimeout = or_default (body_run_timeout req) 3000;
          jobDir = path_join EXEC_DIR jobId
      in case mkdirSync os jobDir w of
           (Inl e, w1) \<Rightarrow> (Inl (Thrown e), w1)
         | (Inr u, w1) \<Rightarrow>
             (case single_try_block os lang jobDir fs input compileTimeout runTimeout w1 of
                (Inl f, w2) \<Rightarrow> (Inl f, w2)
              | (Inr resp, w2) \<Rightarrow> (Inr resp, rmSync_quiet os jobDir w2)))"

section \<open>Notions used in the statements\<close>

text \<open>The world after the commands for the inputs \<open>xs\<close> have run one after another.\<close>

fun world_after :: "os \<Rightarrow> string \<Rightarrow> path \<Rightarrow> nat \<Rightarrow> string list \<Rightarrow> world \<Rightarrow> world" where
  "world_after os cmd d t [] w = w"
| "world_after os cmd d t (x # xs) w = world_after os cmd d t xs (snd (runCommand os cmd d t x w))"

text \<open>The entry file as the specification words it: the last name with the extension,
  or the default name when there is none.\<close>

definition entry_file :: "string \<Rightarrow> string \<Rightarrow> string list \<Rightarrow> string" where
  "entry_file dflt ext names =
     (case filter (\<lambda>n. endsWith n ext) names of [] \<Rightarrow> dflt | m # ms \<Rightarrow> last (m # ms))"

text \<open>The calls that remove a directory tree.\<close>

definition is_rm :: "event \<Rightarrow> bool" where
  "is_rm ev = (case ev of RmTree d \<Rightarrow> True | _ \<Rightarrow> False)"

text \<open>The outcome of a handler on which the server process has ended.\<close>

definition server_died :: "fault + 'a \<Rightarrow> bool" where
  "server_died r = (case r of Inl (Uncaught e) \<Rightarrow> True | _ \<Rightarrow> False)"


section \<open>Sample machines\<close>

text \<open>A machine on which every command gets the same answer \<open>r\<close> after \<open>d\<close> milliseconds,
  every input is taken and the file-system calls succeed.\<close>

definition const_os :: "exec_reply \<Rightarrow> int \<Rightarrow> os" where
  "const_os r d =
     \<lparr>os_exec = (\<lambda>m cmd cwd t inp. (r, m\<lparr>now := now m + d\<rparr>)),
      stdin_err = (\<lambda>m cmd cwd inp. None),
      mkdir_err = (\<lambda>m p. None), write_err = (\<lambda>m p. None), rm_err = (\<lambda>m p. None)\<rparr>"

text \<open>A machine on which every command prints its input, exits with 0 after 7
  milliseconds and leaves the files alone.\<close>

definition echo_os :: os where
  "echo_os =
     \<lparr>os_exec = (\<lambda>m cmd cwd t inp. (\<lparr>err = None, out = inp, errout = []\<rparr>, m\<lparr>now := now m + 7\<rparr>)),
      stdin_err = (\<lambda>m cmd cwd inp. None),
      mkdir_err = (\<lambda>m p. None), write_err = (\<lambda>m p. None), rm_err = (\<lambda>m p. None)\<rparr>"

text \<open>The same machine, except that no directory can be removed.\<close>

definition stuck_os :: os where
  "stuck_os = echo_os\<lparr>rm_err := (\<lambda>m p. Some (JsError ''Error'' ''EACCES: permission denied''))\<rparr>"

text \<open>The same machine, except that no child reads its input: every write to a
  standard input fails.\<close>

definition epipe_os :: os where
  "epipe_os = echo_os\<lparr>stdin_err := (\<lambda>m cmd cwd inp. Some (JsError ''Error'' ''write EPIPE''))\<rparr>"

text \<open>The answers of Node for a child that exits with 1, and for a child that runs into
  the deadline and is killed with the default kill signal.\<close>

definition exit_1 :: exec_reply where
  "exit_1 = \<lparr>err = Some \<lparr>killed = False, signal = None, ecode = CodeNum 1\<rparr>,
             out = ''partial'', errout = ''error: expected expression''\<rparr>"

definition deadline_kill :: exec_reply where
  "deadline_kill = \<lparr>err = Some \<lparr>killed = True, signal = Some ''SIGTERM'', ecode = CodeNull\<rparr>,
                    out = ''partial'', errout = []\<rparr>"


text \<open>The machine after the server has started: the scratch root exists and no command
  is running.\<close>

definition boot :: world where
  "boot = \<lparr>mach = \<lparr>dirs = {EXEC_DIR}, store = Map.empty, now = 0, running = {}\<rparr>, trace = []\<rparr>"

definition solution_py :: source_file where
  "solution_py = \<lparr>name = Some ''solution.py'', content = Some ''print(input())''\<rparr>"

definition unnamed_cpp :: source_file where
  "unnamed_cpp = \<lparr>name = None, content = Some ''int main(){return 0;}''\<rparr>"

definition request_for :: "string \<Rightarrow> source_file \<Rightarrow> string list \<Rightarrow> request" where
  "request_for lang f ins =
     \<lparr>body_language = Some lang, body_files = Some [f], body_stdin = None, body_inputs = Some ins,
      body_compile_timeout = None, body_run_timeout = None\<rparr>"

section \<open>runCommand: what an invocation reports\<close>

lemma runCommand_trace:
  "trace (snd (runCommand os cmd cwd t inp w)) = trace w @ [Exec cmd cwd t inp]"
  by (simp add: runCommand_def Let_def split: prod.splits)

lemma runCommand_result:
  "os_exec os (mach w) cmd cwd t inp = (r, m') \<Longrightarrow>
   runCommand os cmd cwd t inp w =
     (exec_callback r (now m' - now (mach w)), \<lparr>mach = m', trace = trace w @ [Exec cmd cwd t inp]\<rparr>)"
  by (simp add: runCommand_def Let_def)






text \<open>
  Claim C9. An invocation that ends in the timeout sentinel reports the empty string as
  its standard output, whatever the child had printed before it was killed.
\<close>

theorem runCommand_timeout_drops_stdout:
  assumes "os_exec os (mach w) cmd cwd timeoutMs inputStr = (r, m')"
    and "err r = Some e" and "killed e" and "signal e = Some ''SIGTERM''"
  shows "stdout (fst (runCommand os cmd cwd timeoutMs inputStr w)) = []"
  using assms by (simp add: runCommand_result exec_callback_def)

theorem runCommand_timeout_drops_stdout_witness:
  "out deadline_kill = ''partial'' \<and>
   err deadline_kill = Some \<lparr>killed = True, signal = Some ''SIGTERM'', ecode = CodeNull\<rparr> \<and>
   stdout (fst (runCommand (const_os deadline_kill 500) ''node main.js'' ''/tmp/executions/j1'' 500 [] boot)) = []"
proof -
  let ?e = "\<lparr>killed = True, signal = Some ''SIGTERM'', ecode = CodeNull\<rparr>"
  have a: "os_exec (const_os deadline_kill 500) (mach boot) ''node main.js'' ''/tmp/executions/j1'' 500 []
             = (deadline_kill, (mach boot)\<lparr>now := now (mach boot) + 500\<rparr>)"
    by (simp add: const_os_def)
  have b: "err deadline_kill = Some ?e" by (simp add: deadline_kill_def)
  have c: "killed ?e" by simp
  have d: "signal ?e = Some ''SIGTERM''" by simp
  have "out deadline_kill = ''partial''" by (simp add: deadline_kill_def)
  with runCommand_timeout_drops_stdout [OF a b c d] b show ?thesis by simp
qed

text \<open>
  Claim C7. When an invocation fails and is not a timeout, the reported exit code is the
  number in the error's \<open>code\<close> when it is a number, and 0 when it is not (a system error
  name or null); the elapsed time is the clock at completion minus the clock at the
  spawn.
\<close>

theorem runCommand_failure_code:
  assumes "os_exec os (mach w) cmd cwd timeoutMs inputStr = (r, m')"
    and "err r = Some e" and "\<not> (killed e \<and> signal e = Some ''SIGTERM'')"
  shows "code (fst (runCommand os cmd cwd timeoutMs inputStr w)) =
           (case ecode e of CodeNum n \<Rightarrow> n | CodeStr s \<Rightarrow> 0 | CodeNull \<Rightarrow> 0) \<and>
         timeMs (fst (runCommand os cmd cwd timeoutMs inputStr w)) = Some (now m' - now (mach w))"
  using assms by (auto simp add: runCommand_result exec_callback_def)

theorem runCommand_failure_code_witness:
  "err exit_1 = Some \<lparr>killed = False, signal = None, ecode = CodeNum 1\<rparr> \<and>
   code (fst (runCommand (const_os exit_1 12) ''./main'' ''/tmp/executions/j1'' 3000 ''x'' boot)) = 1 \<and>
   timeMs (fst (runCommand (const_os exit_1 12) ''./main'' ''/tmp/executions/j1'' 3000 ''x'' boot)) = Some 12"
proof -
  let ?e = "\<lparr>killed = False, signal = None, ecode = CodeNum 1\<rparr>"
  have a: "os_exec (const_os exit_1 12) (mach boot) ''./main'' ''/tmp/executions/j1'' 3000 ''x''
             = (exit_1, (mach boot)\<lparr>now := now (mach boot) + 12\<rparr>)"
    by (simp add: const_os_def)
  have b: "err exit_1 = Some ?e" by (simp add: exit_1_def)
  have c: "\<not> (killed ?e \<and> signal ?e = Some ''SIGTERM'')" by simp
  from runCommand_failure_code [OF a b c] b show ?thesis by (simp add: boot_def)
qed

section \<open>handleBatchExecution: compile once, run per input\<close>

lemma world_after_trace:
  "trace (world_after os cmd d t xs w) = trace w @ map (Exec cmd d t) xs"
  by (induction xs arbitrary: w) (simp_all add: runCommand_trace)

lemma await_runCommand_snd:
  "snd (await_runCommand os cmd cwd t inp w) = snd (runCommand os cmd cwd t inp w)"
  by (simp add: await_runCommand_def split: option.splits)

lemma await_runCommand_Inr:
  "await_runCommand os cmd cwd t inp w = (Inr r, w') \<Longrightarrow>
   r = fst (runCommand os cmd cwd t inp w) \<and> w' = snd (runCommand os cmd cwd t inp w)"
  by (auto simp add: await_runCommand_def split: option.splits if_splits)

lemma await_runCommand_Inl:
  "await_runCommand os cmd cwd t inp w = (Inl f, w') \<Longrightarrow>
   (\<exists>e. f = Uncaught e \<and> inp \<noteq> [] \<and> stdin_err os (mach w) cmd cwd inp = Some e)"
  by (auto simp add: await_runCommand_def split: option.splits if_splits)

lemma await_runCommand_no_input:
  "await_runCommand os cmd cwd t [] w =
     (Inr (fst (runCommand os cmd cwd t [] w)), snd (runCommand os cmd cwd t [] w))"
  by (simp add: await_runCommand_def)

lemma batch_run_Inr:
  "batch_run os cmd d t acc xs w = (Inr rs, w') \<Longrightarrow>
   rs = acc @ map (\<lambda>i. fst (runCommand os cmd d t (xs ! i) (world_after os cmd d t (take i xs) w)))
               [0..<length xs] \<and>
   w' = world_after os cmd d t xs w"
proof (induction xs arbitrary: acc w)
  case Nil
  then show ?case by simp
next
  case (Cons x xs)
  obtain a w1 where aw: "await_runCommand os cmd d t x w = (a, w1)"
    by (cases "await_runCommand os cmd d t x w")
  with Cons.prems obtain r where a: "a = Inr r" by (cases a) simp_all
  from aw a have r: "r = fst (runCommand os cmd d t x w)" and w1: "w1 = snd (runCommand os cmd d t x w)"
    using await_runCommand_Inr [of os cmd d t x w r w1] by simp_all
  from Cons.prems aw a have "batch_run os cmd d t (acc @ [r]) xs w1 = (Inr rs, w')" by simp
  from Cons.IH [OF this] have
    rs: "rs = (acc @ [r]) @ map (\<lambda>i. fst (runCommand os cmd d t (xs ! i)
                 (world_after os cmd d t (take i xs) w1))) [0..<length xs]"
    and w': "w' = world_after os cmd d t xs w1" by simp_all
  have "map (\<lambda>i. fst (runCommand os cmd d t ((x # xs) ! i) (world_after os cmd d t (take i (x # xs)) w)))
          [0..<length (x # xs)]
        = r # map (\<lambda>i. fst (runCommand os cmd d t (xs ! i) (world_after os cmd d t (take i xs) w1)))
          [0..<length xs]"
    using r w1 by (simp add: upt_conv_Cons map_Suc_upt [symmetric] del: upt_Suc)
  with rs w' w1 show ?case by simp
qed

lemma batch_run_world:
  "\<exists>k \<le> length xs. snd (batch_run os cmd d t acc xs w) = world_after os cmd d t (take k xs) w"
proof (induction xs arbitrary: acc w)
  case Nil
  then show ?case by simp
next
  case (Cons x xs)
  obtain a w1 where aw: "await_runCommand os cmd d t x w = (a, w1)"
    by (cases "await_runCommand os cmd d t x w")
  from aw have w1: "w1 = snd (runCommand os cmd d t x w)"
    using await_runCommand_snd [of os cmd d t x w] by simp
  show ?case
  proof (cases a)
    case (Inl f)
    with aw w1 have "snd (batch_run os cmd d t acc (x # xs) w) =
        world_after os cmd d t (take 1 (x # xs)) w" by simp
    then show ?thesis by (intro exI [of _ 1]) simp
  next
    case (Inr r)
    from Cons.IH [of "acc @ [r]" w1] obtain k where
      k: "k \<le> length xs" "snd (batch_run os cmd d t (acc @ [r]) xs w1) = world_after os cmd d t (take k xs) w1"
      by blast
    with aw Inr w1 have "snd (batch_run os cmd d t acc (x # xs) w) =
        world_after os cmd d t (take (Suc k) (x # xs)) w" by simp
    with k(1) show ?thesis by (intro exI [of _ "Suc k"]) simp
  qed
qed



lemma compile_step_cpp:
  "compile_step os ''cpp'' jobDir ct w =
     ((fst (runCommand os ''g++ -std=c++17 -O2 -pipe -static -s *.cpp -o main'' jobDir ct [] w), ''./main''),
      snd (runCommand os ''g++ -std=c++17 -O2 -pipe -static -s *.cpp -o main'' jobDir ct [] w))"
  by (simp add: compile_step_def split: prod.splits)

lemma compile_step_java:
  "compile_step os ''java'' jobDir ct w =
     ((fst (runCommand os ''javac *.java'' jobDir ct [] w), ''java Main''),
      snd (runCommand os ''javac *.java'' jobDir ct [] w))"
  by (simp add: compile_step_def split: prod.splits)

lemma compile_step_none:
  "\<not> has_compile_phase language \<Longrightarrow> fst (fst (compile_step os language jobDir ct w)) = no_compile
     \<and> snd (compile_step os language jobDir ct w) = w"
  by (simp add: compile_step_def has_compile_phase_def)

lemma handleBatch_compile_failed:
  assumes "write_files os language jobDir fs w = (Inr u, w1)"
    and "compile_step os language jobDir ct w1 = ((c, rc), w2)"
    and "code c \<noteq> 0"
  shows "handleBatchExecution os language jobDir fs ins ct rt w = (Inr \<lparr>compile = c, results = []\<rparr>, w2)"
  using assms by (simp add: handleBatchExecution_def)

text \<open>
  Claim C3. For a language with a compile phase, once the files are written, if the
  compile command reports a non-zero exit code then \<open>handleBatchExecution\<close> returns that
  compile result with an empty list of results, the world is the one the compile command
  left, and the only call issued after the files were written is the compile command:
  no run command is invoked for any input.
\<close>

theorem compile_failure_short_circuits:
  assumes "has_compile_phase language"
    and "fst (write_files os language jobDir fs w) = Inr ()"
    and "w1 = snd (write_files os language jobDir fs w)"
    and "cc = (if language = ''cpp'' then ''g++ -std=c++17 -O2 -pipe -static -s *.cpp -o main''
               else ''javac *.java'')"
    and "code (fst (runCommand os cc jobDir ct [] w1)) \<noteq> 0"
  shows "handleBatchExecution os language jobDir fs ins ct rt w =
           (Inr \<lparr>compile = fst (runCommand os cc jobDir ct [] w1), results = []\<rparr>,
            snd (runCommand os cc jobDir ct [] w1)) \<and>
         trace (snd (handleBatchExecution os language jobDir fs ins ct rt w)) =
           trace w1 @ [Exec cc jobDir ct []]"
proof -
  from assms(2,3) have wf: "write_files os language jobDir fs w = (Inr (), w1)"
    by (cases "write_files os language jobDir fs w") simp
  from assms(1) have "language = ''cpp'' \<or> language = ''java''"
    by (simp add: has_compile_phase_def)
  then obtain rc where cs: "compile_step os language jobDir ct w1 =
      ((fst (runCommand os cc jobDir ct [] w1), rc), snd (runCommand os cc jobDir ct [] w1))"
  proof
    assume l: "language = ''cpp''"
    with assms(4) have "cc = ''g++ -std=c++17 -O2 -pipe -static -s *.cpp -o main''" by simp
    with l that show ?thesis by (simp only: compile_step_cpp)
  next
    assume l: "language = ''java''"
    with assms(4) have "cc = ''javac *.java''" by simp
    with l that show ?thesis by (simp only: compile_step_java)
  qed
  from handleBatch_compile_failed [OF wf cs assms(5)]
  show ?thesis by (simp add: runCommand_trace)
qed

theorem compile_failure_short_circuits_witness:
  "has_compile_phase ''java'' \<and>
   handleBatchExecution (const_os exit_1 40) ''java'' ''/tmp/executions/j1'' [] [''hi'', ''bye''] 10000 3000 boot =
     (Inr \<lparr>compile = \<lparr>stdout = ''partial'', stderr = ''error: expected expression'', code = 1, timeMs = Some 40\<rparr>,
            results = []\<rparr>,
      snd (runCommand (const_os exit_1 40) ''javac *.java'' ''/tmp/executions/j1'' 10000 [] boot)) \<and>
   trace (snd (handleBatchExecution (const_os exit_1 40) ''java'' ''/tmp/executions/j1'' [] [''hi'', ''bye''] 10000 3000 boot))
     = [Exec ''javac *.java'' ''/tmp/executions/j1'' 10000 []]"
proof -
  have a: "has_compile_phase ''java''" by (simp add: has_compile_phase_def)
  have b: "fst (write_files (const_os exit_1 40) ''java'' ''/tmp/executions/j1'' [] boot) = Inr ()" by simp
  have c: "boot = snd (write_files (const_os exit_1 40) ''java'' ''/tmp/executions/j1'' [] boot)" by simp
  have d: "''javac *.java'' = (if ''java'' = ''cpp'' then ''g++ -std=c++17 -O2 -pipe -static -s *.cpp -o main''
               else ''javac *.java'')" by simp
  have r: "fst (runCommand (const_os exit_1 40) ''javac *.java'' ''/tmp/executions/j1'' 10000 [] boot)
      = \<lparr>stdout = ''partial'', stderr = ''error: expected expression'', code = 1, timeMs = Some 40\<rparr>"
    by (simp add: runCommand_def const_os_def exit_1_def exec_callback_def boot_def Let_def)
  then have e: "code (fst (runCommand (const_os exit_1 40) ''javac *.java'' ''/tmp/executions/j1'' 10000 [] boot)) \<noteq> 0"
    by simp
  from compile_failure_short_circuits [OF a b c d e, of "[''hi'', ''bye'']" 3000] a r show ?thesis
    by (simp add: runCommand_trace boot_def)
qed

section \<open>The route: what the handler answers\<close>

lemma batchInputs_nonempty: "batchInputs req \<noteq> []"
  by (simp add: batchInputs_def split: option.splits)

lemma handleBatch_cases:
  assumes "handleBatchExecution os language jobDir fs ins ct rt w = (Inr res, w')"
  obtains u w1 c rc w2 where
    "write_files os language jobDir fs w = (Inr u, w1)"
    "compile_step os language jobDir ct w1 = ((c, rc), w2)"
    "compile res = c"
    "code c \<noteq> 0 \<longrightarrow> results res = [] \<and> w' = w2"
    "code c = 0 \<longrightarrow> (Inr (results res), w') = batch_run os rc jobDir rt [] ins w2"
proof -
  obtain a w1 where wf: "write_files os language jobDir fs w = (a, w1)"
    by (cases "write_files os language jobDir fs w")
  obtain c rc w2 where cs: "compile_step os language jobDir ct w1 = ((c, rc), w2)"
    by (cases "compile_step os language jobDir ct w1") auto
  from assms wf obtain u where a: "a = Inr u"
    by (cases a) (simp_all add: handleBatchExecution_def)
  obtain b w3 where br: "batch_run os rc jobDir rt [] ins w2 = (b, w3)"
    by (cases "batch_run os rc jobDir rt [] ins w2")
  from assms wf cs a br have "compile res = c" "code c \<noteq> 0 \<longrightarrow> results res = [] \<and> w' = w2"
    "code c = 0 \<longrightarrow> (Inr (results res), w') = batch_run os rc jobDir rt [] ins w2"
    by (auto simp add: handleBatchExecution_def split: if_splits sum.splits)
  with that wf cs a show thesis by blast
qed

lemma handleBatch_empty_results:
  assumes "handleBatchExecution os language jobDir fs ins ct rt w = (Inr res, w')"
    and "ins \<noteq> []" and "results res = []"
  shows "code (compile res) \<noteq> 0"
proof
  assume z: "code (compile res) = 0"
  from assms(1) obtain u w1 c rc w2 where
    h: "compile res = c" "code c = 0 \<longrightarrow> (Inr (results res), w') = batch_run os rc jobDir rt [] ins w2"
    by (rule handleBatch_cases)
  with z have "batch_run os rc jobDir rt [] ins w2 = (Inr (results res), w')" by simp
  from batch_run_Inr [OF this] have "length (results res) = length ins" by simp
  with assms(2,3) show False by simp
qed

lemma try_block_ok:
  assumes "try_block os lang jobDir fs ins ct rt w = (Inr (Ok200 b), w')"
  obtains res w'' where
    "lang \<in> set supported"
    "handleBatchExecution os (normalize lang) jobDir fs ins ct rt w = (Inr res, w'')"
    "b = \<lparr>resp_language = normalize lang, resp_compile = Some (compile res),
          resp_run = (case results res of [] \<Rightarrow> no_run | r # rs \<Rightarrow> r), resp_results = results res\<rparr>"
    "w' = logged (Send 200) w''"
proof -
  from assms have s: "lang \<in> set supported"
    by (auto simp add: try_block_def send_def split: if_splits)
  obtain a w'' where hb: "handleBatchExecution os (normalize lang) jobDir fs ins ct rt w = (a, w'')"
    by (cases "handleBatchExecution os (normalize lang) jobDir fs ins ct rt w")
  from assms s hb obtain res where a: "a = Inr res"
    by (cases a) (auto simp add: try_block_def send_def split: fault.splits)
  from assms s hb a have "b = \<lparr>resp_language = normalize lang, resp_compile = Some (compile res),
          resp_run = (case results res of [] \<Rightarrow> no_run | r # rs \<Rightarrow> r), resp_results = results res\<rparr>"
    "w' = logged (Send 200) w''"
    by (simp_all add: try_block_def send_def)
  with that s hb a show thesis by blast
qed

lemma try_catch_mkdir_ok:
  assumes "mkdir_err os (mach w) (path_join EXEC_DIR jobId) = None"
  shows "try_catch os jobId req w =
     try_block os (toLowerCase (or_empty (body_language req))) (path_join EXEC_DIR jobId)
          (case body_files req of None \<Rightarrow> [] | Some xs \<Rightarrow> xs) (batchInputs req)
          (or_default (body_compile_timeout req) 10000) (or_default (body_run_timeout req) 3000)
          (snd (mkdirSync os (path_join EXEC_DIR jobId) w))"
  using assms by (simp add: try_catch_def mkdirSync_def Let_def)

lemma try_catch_mkdir_fails:
  assumes "mkdir_err os (mach w) (path_join EXEC_DIR jobId) = Some e"
  shows "try_catch os jobId req w = (Inl (Thrown e), logged (Mkdir (path_join EXEC_DIR jobId)) w)"
  using assms by (simp add: try_catch_def mkdirSync_def Let_def)

lemma execute_handler_ok:
  assumes "fst (execute_handler os jobId req w) = Inr resp"
  shows "mkdir_err os (mach w) (path_join EXEC_DIR jobId) = None"
proof (cases "mkdir_err os (mach w) (path_join EXEC_DIR jobId)")
  case None
  then show ?thesis .
next
  case (Some e)
  with assms show ?thesis by (simp add: execute_handler_def try_catch_mkdir_fails)
qed

lemma execute_handler_Inr:
  "fst (execute_handler os jobId req w) = Inr resp \<Longrightarrow> fst (try_catch os jobId req w) = Inr resp"
  by (auto simp add: execute_handler_def split: prod.splits sum.splits)

text \<open>
  Claim C10. When the handler answers with status 200 and the results of the body are
  empty, the \<open>run\<close> field of the body is the synthesized object with code 0, empty
  standard output and empty standard error (and no elapsed time), and the \<open>compile\<close>
  field carries a non-zero exit code: the results are empty only because the compile
  step failed, and no run stands behind the code 0.
\<close>

theorem empty_results_synthesized_run:
  assumes "fst (execute_handler os jobId req w) = Inr (Ok200 b)"
    and "resp_results b = []"
  shows "resp_run b = \<lparr>stdout = [], stderr = [], code = 0, timeMs = None\<rparr> \<and>
         (\<exists>c. resp_compile b = Some c \<and> code c \<noteq> 0)"
proof -
  let ?lang = "toLowerCase (or_empty (body_language req))"
  let ?d = "path_join EXEC_DIR jobId"
  let ?fs = "case body_files req of None \<Rightarrow> [] | Some xs \<Rightarrow> xs"
  let ?ct = "or_default (body_compile_timeout req) 10000"
  let ?rt = "or_default (body_run_timeout req) 3000"
  let ?w1 = "snd (mkdirSync os ?d w)"
  from assms(1) have mk: "mkdir_err os (mach w) ?d = None" by (rule execute_handler_ok)
  with execute_handler_Inr [OF assms(1)]
  have "fst (try_block os ?lang ?d ?fs (batchInputs req) ?ct ?rt ?w1) = Inr (Ok200 b)"
    by (simp add: try_catch_mkdir_ok)
  then obtain w' where "try_block os ?lang ?d ?fs (batchInputs req) ?ct ?rt ?w1 = (Inr (Ok200 b), w')"
    by (cases "try_block os ?lang ?d ?fs (batchInputs req) ?ct ?rt ?w1") simp
  then obtain res w'' where
    hb: "handleBatchExecution os (normalize ?lang) ?d ?fs (batchInputs req) ?ct ?rt ?w1 = (Inr res, w'')"
    and b: "b = \<lparr>resp_language = normalize ?lang, resp_compile = Some (compile res),
          resp_run = (case results res of [] \<Rightarrow> no_run | r # rs \<Rightarrow> r), resp_results = results res\<rparr>"
    by (rule try_block_ok)
  from b assms(2) have e: "results res = []" by simp
  from handleBatch_empty_results [OF hb batchInputs_nonempty e] have "code (compile res) \<noteq> 0" .
  with b e show ?thesis by (simp add: no_run_def)
qed

text \<open>The definitions that a concrete request is evaluated with.\<close>

lemmas eval_defs = execute_handler_def try_catch_def try_block_def handleBatchExecution_def
  compile_step_def await_runCommand_def runCommand_def exec_callback_def mkdirSync_def writeFileSync_def rmSync_quiet_def
  logged_def send_def path_join_def EXEC_DIR_def resolve_name_def or_empty_def or_default_def
  batchInputs_def toLowerCase_def lower_char_def supported_def normalize_def no_compile_def no_run_def
  error_text_def request_for_def boot_def Let_def

theorem empty_results_synthesized_run_witness:
  "fst (execute_handler (const_os exit_1 40) ''job1'' (request_for ''C++'' unnamed_cpp [''1'', ''2'']) boot) =
     Inr (Ok200 \<lparr>resp_language = ''cpp'',
                 resp_compile = Some \<lparr>stdout = ''partial'', stderr = ''error: expected expression'',
                                       code = 1, timeMs = Some 40\<rparr>,
                 resp_run = \<lparr>stdout = [], stderr = [], code = 0, timeMs = None\<rparr>,
                 resp_results = []\<rparr>)"
proof -
  let ?b = "\<lparr>resp_language = ''cpp'',
                 resp_compile = Some \<lparr>stdout = ''partial'', stderr = ''error: expected expression'',
                                       code = 1, timeMs = Some 40\<rparr>,
                 resp_run = (case fst (execute_handler (const_os exit_1 40) ''job1''
                      (request_for ''C++'' unnamed_cpp [''1'', ''2'']) boot) of Inr (Ok200 b) \<Rightarrow> resp_run b),
                 resp_results = []\<rparr>"
  have a: "fst (execute_handler (const_os exit_1 40) ''job1'' (request_for ''C++'' unnamed_cpp [''1'', ''2'']) boot)
      = Inr (Ok200 ?b)"
    by (simp add: eval_defs const_os_def exit_1_def unnamed_cpp_def)
  have b: "resp_results ?b = []" by simp
  from empty_results_synthesized_run [OF a b] a show ?thesis by simp
qed

section \<open>The workspace: created, used, removed\<close>

subsection \<open>Events\<close>

lemma writeFileSync_trace:
  "trace (snd (writeFileSync os p data w)) = trace w @ [WriteFile p data]"
  by (simp add: writeFileSync_def logged_def split: option.splits)

lemma mkdirSync_trace:
  "trace (snd (mkdirSync os d w)) = trace w @ [Mkdir d]"
  by (simp add: mkdirSync_def logged_def split: option.splits)

lemma rmSync_quiet_trace:
  "trace (rmSync_quiet os d w) = trace w @ [RmTree d]"
  by (simp add: rmSync_quiet_def logged_def split: option.splits)

lemma write_files_no_rm:
  "filter is_rm (trace (snd (write_files os language jobDir fs w))) = filter is_rm (trace w)"
proof (induction fs arbitrary: w)
  case Nil
  then show ?case by simp
next
  case (Cons f fs)
  show ?case
  proof (cases "resolve_name language f")
    case None
    then show ?thesis by simp
  next
    case (Some n)
    obtain a w' where wr: "writeFileSync os (path_join jobDir n) (or_empty (content f)) w = (a, w')"
      by (cases "writeFileSync os (path_join jobDir n) (or_empty (content f)) w")
    with writeFileSync_trace [of os "path_join jobDir n" "or_empty (content f)" w]
    have t: "filter is_rm (trace w') = filter is_rm (trace w)" by (simp add: is_rm_def)
    show ?thesis
    proof (cases a)
      case (Inl e)
      with Some wr t show ?thesis by simp
    next
      case (Inr u)
      with Some wr t Cons.IH [of w'] show ?thesis by simp
    qed
  qed
qed

lemma runCommand_no_rm:
  "filter is_rm (trace (snd (runCommand os cmd cwd t inp w))) = filter is_rm (trace w)"
  by (simp add: runCommand_trace is_rm_def)

lemma compile_step_world:
  "snd (compile_step os language jobDir ct w) =
     (if language = ''cpp''
      then snd (runCommand os ''g++ -std=c++17 -O2 -pipe -static -s *.cpp -o main'' jobDir ct [] w)
      else if language = ''java'' then snd (runCommand os ''javac *.java'' jobDir ct [] w)
      else w)"
  by (simp add: compile_step_def split: prod.splits)

lemma compile_step_no_rm:
  "filter is_rm (trace (snd (compile_step os language jobDir ct w))) = filter is_rm (trace w)"
  by (simp add: compile_step_world runCommand_no_rm)

lemma batch_run_no_rm:
  "filter is_rm (trace (snd (batch_run os cmd d t acc xs w))) = filter is_rm (trace w)"
proof -
  from batch_run_world [of xs os cmd d t acc w] obtain k where
    "snd (batch_run os cmd d t acc xs w) = world_after os cmd d t (take k xs) w" by blast
  then show ?thesis by (simp add: world_after_trace is_rm_def)
qed

lemma handleBatch_no_rm:
  "filter is_rm (trace (snd (handleBatchExecution os language jobDir fs ins ct rt w))) = filter is_rm (trace w)"
proof -
  obtain a w1 where wf: "write_files os language jobDir fs w = (a, w1)"
    by (cases "write_files os language jobDir fs w")
  obtain c rc w2 where cs: "compile_step os language jobDir ct w1 = ((c, rc), w2)"
    by (cases "compile_step os language jobDir ct w1") auto
  from wf write_files_no_rm [of os language jobDir fs w]
  have 1: "filter is_rm (trace w1) = filter is_rm (trace w)" by simp
  from cs compile_step_no_rm [of os language jobDir ct w1]
  have 2: "filter is_rm (trace w2) = filter is_rm (trace w1)" by simp
  show ?thesis
  proof (cases a)
    case (Inl e)
    with wf 1 show ?thesis by (simp add: handleBatchExecution_def)
  next
    case (Inr u)
    with wf cs 1 2 batch_run_no_rm [of os rc jobDir rt "[]" ins w2]
    show ?thesis by (auto simp add: handleBatchExecution_def split: prod.splits sum.splits)
  qed
qed

lemma try_block_no_rm:
  "filter is_rm (trace (snd (try_block os lang jobDir fs ins ct rt w))) = filter is_rm (trace w)"
  using handleBatch_no_rm [of os "normalize lang" jobDir fs ins ct rt w]
  by (auto simp add: try_block_def send_def logged_def is_rm_def split: prod.splits sum.splits fault.splits)

lemma try_block_sends_last:
  "fst (try_block os lang jobDir fs ins ct rt w) = Inr resp \<Longrightarrow>
   \<exists>es. trace (snd (try_block os lang jobDir fs ins ct rt w)) = es @ [Send (status resp)]"
  by (auto simp add: try_block_def send_def logged_def split: prod.splits sum.splits fault.splits if_splits)

lemma try_block_alive:
  "\<not> server_died (fst (try_block os lang jobDir fs ins ct rt w)) \<Longrightarrow>
   \<exists>resp. fst (try_block os lang jobDir fs ins ct rt w) = Inr resp"
  by (auto simp add: try_block_def send_def server_died_def split: prod.splits sum.splits fault.splits if_splits)

subsection \<open>The removal does not reach the response\<close>

lemma runCommand_rm_err: "runCommand (os\<lparr>rm_err := r\<rparr>) = runCommand os"
  by (simp add: fun_eq_iff runCommand_def)

lemma await_runCommand_rm_err: "await_runCommand (os\<lparr>rm_err := r\<rparr>) = await_runCommand os"
  by (simp add: fun_eq_iff await_runCommand_def runCommand_rm_err split: option.splits)

lemma writeFileSync_rm_err: "writeFileSync (os\<lparr>rm_err := r\<rparr>) = writeFileSync os"
  by (simp add: fun_eq_iff writeFileSync_def)

lemma mkdirSync_rm_err: "mkdirSync (os\<lparr>rm_err := r\<rparr>) = mkdirSync os"
  by (simp add: fun_eq_iff mkdirSync_def)

lemma write_files_rm_err:
  "write_files (os\<lparr>rm_err := r\<rparr>) language jobDir fs w = write_files os language jobDir fs w"
  by (induction fs arbitrary: w) (simp_all add: writeFileSync_rm_err split: option.splits prod.splits sum.splits)

lemma batch_run_rm_err:
  "batch_run (os\<lparr>rm_err := r\<rparr>) cmd d t acc xs w = batch_run os cmd d t acc xs w"
  by (induction xs arbitrary: acc w) (simp_all add: await_runCommand_rm_err split: prod.splits sum.splits)

lemma compile_step_rm_err:
  "compile_step (os\<lparr>rm_err := r\<rparr>) language jobDir ct w = compile_step os language jobDir ct w"
  by (simp add: compile_step_def runCommand_rm_err)

lemma handleBatch_rm_err:
  "handleBatchExecution (os\<lparr>rm_err := r\<rparr>) language jobDir fs ins ct rt w =
   handleBatchExecution os language jobDir fs ins ct rt w"
  by (simp add: handleBatchExecution_def write_files_rm_err compile_step_rm_err batch_run_rm_err
      split: prod.splits sum.splits)

lemma try_block_rm_err:
  "try_block (os\<lparr>rm_err := r\<rparr>) lang jobDir fs ins ct rt w = try_block os lang jobDir fs ins ct rt w"
  by (simp add: try_block_def handleBatch_rm_err)

lemma died_without_cleanup:
  assumes "server_died (fst (execute_handler os jobId req w))"
  shows "filter is_rm (trace (snd (execute_handler os jobId req w))) = filter is_rm (trace w)"
proof -
  from assms obtain f where f: "fst (execute_handler os jobId req w) = Inl f"
    by (cases "fst (execute_handler os jobId req w)") (simp_all add: server_died_def)
  then have eq: "execute_handler os jobId req w = try_catch os jobId req w"
    by (auto simp add: execute_handler_def split: prod.splits sum.splits)
  have "filter is_rm (trace (snd (try_catch os jobId req w))) = filter is_rm (trace w)"
    by (simp add: try_catch_def Let_def mkdirSync_def logged_def try_block_no_rm is_rm_def
        split: option.splits)
  with eq show ?thesis by simp
qed

lemma try_catch_rm_err:
  "try_catch (os\<lparr>rm_err := r\<rparr>) jobId req w = try_catch os jobId req w"
  by (simp add: try_catch_def try_block_rm_err mkdirSync_rm_err Let_def split: prod.splits sum.splits)

lemma execute_handler_fst:
  "fst (execute_handler os jobId req w) = fst (try_catch os jobId req w)"
  by (simp add: execute_handler_def split: prod.splits sum.splits)

lemma rmSync_quiet_absent:
  "rm_err os (mach w) d = None \<Longrightarrow> d \<notin> dirs (mach (rmSync_quiet os d w))"
  by (simp add: rmSync_quiet_def logged_def under_def)

lemma rmSync_quiet_stuck:
  "rm_err os (mach w) d = Some e \<Longrightarrow> mach (rmSync_quiet os d w) = mach w"
  by (simp add: rmSync_quiet_def logged_def)

text \<open>
  Claim C8, as the code has it. For every request whose job directory could be created
  and during which the server process does not end: the handler sends a response; during
  the request exactly one recursive removal is issued, for the job directory, and it is
  the last call, after the response was sent; whether the removal fails has no influence
  on the response; and when the removal succeeds the directory is absent afterwards.
\<close>

theorem workspace_released_once:
  assumes "mkdir_err os (mach w) (path_join EXEC_DIR jobId) = None"
    and "\<not> server_died (fst (execute_handler os jobId req w))"
  shows "(\<exists>resp. fst (execute_handler os jobId req w) = Inr resp) \<and>
         filter is_rm (trace (snd (execute_handler os jobId req w))) =
           filter is_rm (trace w) @ [RmTree (path_join EXEC_DIR jobId)] \<and>
         (\<exists>es resp. trace (snd (execute_handler os jobId req w)) =
           es @ [Send (status resp), RmTree (path_join EXEC_DIR jobId)] \<and>
           fst (execute_handler os jobId req w) = Inr resp) \<and>
         (\<forall>r. fst (execute_handler (os\<lparr>rm_err := r\<rparr>) jobId req w) = fst (execute_handler os jobId req w)) \<and>
         (rm_err os (mach (snd (try_catch os jobId req w))) (path_join EXEC_DIR jobId) = None \<longrightarrow>
            path_join EXEC_DIR jobId \<notin> dirs (mach (snd (execute_handler os jobId req w))))"
proof -
  let ?d = "path_join EXEC_DIR jobId"
  let ?tb = "try_block os (toLowerCase (or_empty (body_language req))) ?d
          (case body_files req of None \<Rightarrow> [] | Some xs \<Rightarrow> xs) (batchInputs req)
          (or_default (body_compile_timeout req) 10000) (or_default (body_run_timeout req) 3000)
          (snd (mkdirSync os ?d w))"
  have tc: "try_catch os jobId req w = ?tb"
    by (rule try_catch_mkdir_ok [OF assms(1)])
  from assms(2) have "\<not> server_died (fst ?tb)"
    by (simp add: execute_handler_fst tc)
  from try_block_alive [OF this] obtain resp where resp: "fst ?tb = Inr resp" by blast
  with tc have tc': "try_catch os jobId req w = (Inr resp, snd ?tb)"
    by (cases ?tb) simp
  then have eh: "execute_handler os jobId req w = (Inr resp, rmSync_quiet os ?d (snd ?tb))"
    by (simp add: execute_handler_def)
  have 1: "\<exists>resp. fst (execute_handler os jobId req w) = Inr resp" using eh by simp
  have "filter is_rm (trace (snd ?tb)) = filter is_rm (trace w)"
    by (simp add: try_block_no_rm mkdirSync_trace is_rm_def)
  then have 2: "filter is_rm (trace (snd (execute_handler os jobId req w))) =
           filter is_rm (trace w) @ [RmTree ?d]"
    using eh by (simp add: rmSync_quiet_trace is_rm_def)
  from try_block_sends_last [OF resp] obtain es where "trace (snd ?tb) = es @ [Send (status resp)]"
    by blast
  then have 3: "\<exists>es resp. trace (snd (execute_handler os jobId req w)) =
           es @ [Send (status resp), RmTree ?d] \<and> fst (execute_handler os jobId req w) = Inr resp"
    using eh by (simp add: rmSync_quiet_trace)
  have 4: "\<forall>r. fst (execute_handler (os\<lparr>rm_err := r\<rparr>) jobId req w) = fst (execute_handler os jobId req w)"
    by (simp add: execute_handler_fst try_catch_rm_err)
  have 5: "rm_err os (mach (snd (try_catch os jobId req w))) ?d = None \<longrightarrow>
            ?d \<notin> dirs (mach (snd (execute_handler os jobId req w)))"
    using eh tc' by (simp add: rmSync_quiet_absent)
  from 1 2 3 4 5 show ?thesis by blast
qed

theorem workspace_released_once_witness:
  "mkdir_err echo_os (mach boot) (path_join EXEC_DIR ''job1'') = None \<and>
   \<not> server_died (fst (execute_handler echo_os ''job1'' (request_for ''java'' solution_py [''hi'']) boot)) \<and>
   fst (execute_handler echo_os ''job1'' (request_for ''java'' solution_py [''hi'']) boot) =
     fst (execute_handler stuck_os ''job1'' (request_for ''java'' solution_py [''hi'']) boot) \<and>
   filter is_rm (trace (snd (execute_handler echo_os ''job1'' (request_for ''java'' solution_py [''hi'']) boot))) =
     [RmTree ''/tmp/executions/job1''] \<and>
   rm_err echo_os (mach (snd (try_catch echo_os ''job1'' (request_for ''java'' solution_py [''hi'']) boot)))
     (path_join EXEC_DIR ''job1'') = None \<and>
   ''/tmp/executions/job1'' \<notin> dirs (mach (snd (execute_handler echo_os ''job1'' (request_for ''java'' solution_py [''hi'']) boot)))"
proof -
  have a: "mkdir_err echo_os (mach boot) (path_join EXEC_DIR ''job1'') = None"
    by (simp add: echo_os_def)
  have b: "rm_err echo_os m d = None" for m d
    by (simp add: echo_os_def)
  have d: "path_join EXEC_DIR ''job1'' = ''/tmp/executions/job1''"
    by (simp add: path_join_def EXEC_DIR_def)
  have e: "filter is_rm (trace boot) = []" by (simp add: boot_def)
  have c: "\<not> server_died (fst (execute_handler echo_os ''job1'' (request_for ''java'' solution_py [''hi'']) boot))"
    by (simp add: eval_defs echo_os_def solution_py_def server_died_def)
  note t = workspace_released_once [OF a c]
  from t have "fst (execute_handler (echo_os\<lparr>rm_err := (\<lambda>m p. Some (JsError ''Error'' ''EACCES: permission denied''))\<rparr>)
        ''job1'' (request_for ''java'' solution_py [''hi'']) boot) =
      fst (execute_handler echo_os ''job1'' (request_for ''java'' solution_py [''hi'']) boot)"
    by blast
  then have 1: "fst (execute_handler echo_os ''job1'' (request_for ''java'' solution_py [''hi'']) boot) =
     fst (execute_handler stuck_os ''job1'' (request_for ''java'' solution_py [''hi'']) boot)"
    by (simp add: stuck_os_def)
  from t b d e have 2: "filter is_rm (trace (snd (execute_handler echo_os ''job1''
        (request_for ''java'' solution_py [''hi'']) boot))) = [RmTree ''/tmp/executions/job1'']"
    by simp
  from t b d have 3: "''/tmp/executions/job1'' \<notin> dirs (mach (snd (execute_handler echo_os ''job1''
        (request_for ''java'' solution_py [''hi'']) boot)))"
    by simp
  from a c 1 2 3 b show ?thesis by blast
qed

text \<open>
  The claim as it was stated also wants the directory absent on every path. On a machine
  where the removal fails, the error is dropped, the answer is the usual one and the
  directory is still there after the handler has finished.
\<close>

theorem workspace_remains_counterexample:
  "fst (execute_handler stuck_os ''job1'' (request_for ''python'' solution_py [''hi'']) boot) =
     Inr (Ok200 \<lparr>resp_language = ''python'',
                 resp_compile = Some \<lparr>stdout = [], stderr = [], code = 0, timeMs = None\<rparr>,
                 resp_run = \<lparr>stdout = ''hi'', stderr = [], code = 0, timeMs = Some 7\<rparr>,
                 resp_results = [\<lparr>stdout = ''hi'', stderr = [], code = 0, timeMs = Some 7\<rparr>]\<rparr>) \<and>
   trace (snd (execute_handler stuck_os ''job1'' (request_for ''python'' solution_py [''hi'']) boot)) =
     [Mkdir ''/tmp/executions/job1'',
      WriteFile ''/tmp/executions/job1/solution.py'' ''print(input())'',
      Exec ''python3 main.py'' ''/tmp/executions/job1'' 3000 ''hi'',
      Send 200,
      RmTree ''/tmp/executions/job1''] \<and>
   ''/tmp/executions/job1'' \<in> dirs (mach (snd (execute_handler stuck_os ''job1'' (request_for ''python'' solution_py [''hi'']) boot)))"
  by (simp add: eval_defs stuck_os_def echo_os_def solution_py_def)

text \<open>
  Outside the claim as the code has it: the server process ends when the write to a
  child's standard input fails, because \<open>runCommand\<close> gives that stream no listener for
  its error. On a machine where no child reads its input, the python job below gets no
  response and no removal, and its directory stays.
\<close>

lemma server_dies_on_stdin_error:
  "fst (execute_handler epipe_os ''job1'' (request_for ''python'' solution_py [''hi'']) boot) =
     Inl (Uncaught (JsError ''Error'' ''write EPIPE'')) \<and>
   trace (snd (execute_handler epipe_os ''job1'' (request_for ''python'' solution_py [''hi'']) boot)) =
     [Mkdir ''/tmp/executions/job1'',
      WriteFile ''/tmp/executions/job1/solution.py'' ''print(input())'',
      Exec ''python3 main.py'' ''/tmp/executions/job1'' 3000 ''hi''] \<and>
   ''/tmp/executions/job1'' \<in> dirs (mach (snd (execute_handler epipe_os ''job1'' (request_for ''python'' solution_py [''hi'']) boot)))"
  by (simp add: eval_defs epipe_os_def echo_os_def solution_py_def)

section \<open>The route: an unsupported language\<close>

text \<open>
  Claim C2, as the code has it. For a request whose language tag (in lower case) is not
  one of the supported ones and whose job directory could be created, the response is
  the client error \<open>Unsupported language: tag\<close>; the calls of the request are the
  creation of the job directory, the sending of the response and the removal of the
  directory, in this order: no file is written and no command is run, but the directory
  exists when the response is sent.
\<close>

theorem unsupported_language_rejected:
  assumes "toLowerCase (or_empty (body_language req)) \<notin> set supported"
    and "mkdir_err os (mach w) (path_join EXEC_DIR jobId) = None"
  shows "fst (execute_handler os jobId req w) =
           Inr (Err400 (''Unsupported language: '' @ toLowerCase (or_empty (body_language req)))) \<and>
         trace (snd (execute_handler os jobId req w)) =
           trace w @ [Mkdir (path_join EXEC_DIR jobId), Send 400, RmTree (path_join EXEC_DIR jobId)] \<and>
         path_join EXEC_DIR jobId \<in> dirs (mach (snd (try_catch os jobId req w)))"
proof -
  let ?d = "path_join EXEC_DIR jobId"
  let ?lang = "toLowerCase (or_empty (body_language req))"
  have tb: "try_block os ?lang ?d fs ins ct rt w1 =
      (Inr (Err400 (''Unsupported language: '' @ ?lang)), logged (Send 400) w1)" for fs ins ct rt w1
    using assms(1) by (simp add: try_block_def send_def)
  have mk: "snd (mkdirSync os ?d w) = logged (Mkdir ?d) (w\<lparr>mach := (mach w)\<lparr>dirs := insert ?d (dirs (mach w))\<rparr>\<rparr>)"
    using assms(2) by (simp add: mkdirSync_def)
  have tc: "try_catch os jobId req w =
      (Inr (Err400 (''Unsupported language: '' @ ?lang)), logged (Send 400) (snd (mkdirSync os ?d w)))"
    by (simp add: try_catch_mkdir_ok [OF assms(2)] tb)
  then have eh: "execute_handler os jobId req w =
      (Inr (Err400 (''Unsupported language: '' @ ?lang)),
       rmSync_quiet os ?d (logged (Send 400) (snd (mkdirSync os ?d w))))"
    by (simp add: execute_handler_def)
  from eh have 1: "fst (execute_handler os jobId req w) = Inr (Err400 (''Unsupported language: '' @ ?lang))"
    by simp
  from eh have 2: "trace (snd (execute_handler os jobId req w)) = trace w @ [Mkdir ?d, Send 400, RmTree ?d]"
    by (simp add: rmSync_quiet_trace mkdirSync_trace logged_def)
  from tc mk have 3: "?d \<in> dirs (mach (snd (try_catch os jobId req w)))"
    by (simp add: logged_def)
  from 1 2 3 show ?thesis by blast
qed

theorem unsupported_language_rejected_witness:
  "toLowerCase (or_empty (body_language (request_for ''Ruby'' solution_py [''x'']))) \<notin> set supported \<and>
   mkdir_err echo_os (mach boot) (path_join EXEC_DIR ''job1'') = None \<and>
   fst (execute_handler echo_os ''job1'' (request_for ''Ruby'' solution_py [''x'']) boot) =
     Inr (Err400 ''Unsupported language: ruby'') \<and>
   trace (snd (execute_handler echo_os ''job1'' (request_for ''Ruby'' solution_py [''x'']) boot)) =
     [Mkdir ''/tmp/executions/job1'', Send 400, RmTree ''/tmp/executions/job1'']"
proof -
  have l: "toLowerCase (or_empty (body_language (request_for ''Ruby'' solution_py [''x'']))) = ''ruby''"
    by (simp add: request_for_def or_empty_def toLowerCase_def lower_char_def)
  have a: "toLowerCase (or_empty (body_language (request_for ''Ruby'' solution_py [''x'']))) \<notin> set supported"
    by (simp add: l supported_def)
  have b: "mkdir_err echo_os (mach boot) (path_join EXEC_DIR ''job1'') = None"
    by (simp add: echo_os_def)
  have d: "path_join EXEC_DIR ''job1'' = ''/tmp/executions/job1''"
    by (simp add: path_join_def EXEC_DIR_def)
  have e: "trace boot = []" by (simp add: boot_def)
  from unsupported_language_rejected [OF a b] a b l d e show ?thesis by simp
qed

text \<open>
  The claim as it was stated wants no directory created for such a request. The
  directory of the job is not there before the request, is created first, and is there
  when the request is rejected.
\<close>

theorem unsupported_language_mkdir_counterexample:
  "toLowerCase (or_empty (body_language (request_for ''ruby'' solution_py [''x'']))) \<notin> set supported \<and>
   ''/tmp/executions/job1'' \<notin> dirs (mach boot) \<and>
   fst (execute_handler echo_os ''job1'' (request_for ''ruby'' solution_py [''x'']) boot) =
     Inr (Err400 ''Unsupported language: ruby'') \<and>
   trace (snd (execute_handler echo_os ''job1'' (request_for ''ruby'' solution_py [''x'']) boot)) =
     [Mkdir ''/tmp/executions/job1'', Send 400, RmTree ''/tmp/executions/job1''] \<and>
   ''/tmp/executions/job1'' \<in> dirs (mach (snd (try_catch echo_os ''job1'' (request_for ''ruby'' solution_py [''x'']) boot)))"
  by (simp add: eval_defs echo_os_def solution_py_def)

section \<open>The route: the compile field\<close>

text \<open>
  The batch server: every response with status 200 has a \<open>compile\<close> field. For a
  language without a compile phase it is the synthesized object with code 0, empty
  output and no elapsed time; for a language with a compile phase it is what
  \<open>runCommand\<close> returned for the compile command, run without input in the job
  directory after the files were written.
\<close>

lemma batch_compile_field_always_present:
  assumes "fst (execute_handler os jobId req w) = Inr (Ok200 b)"
  shows "resp_compile b \<noteq> None \<and>
         (\<not> has_compile_phase (resp_language b) \<longrightarrow>
            resp_compile b = Some \<lparr>stdout = [], stderr = [], code = 0, timeMs = None\<rparr>) \<and>
         (has_compile_phase (resp_language b) \<longrightarrow>
            resp_compile b =
              Some (fst (runCommand os
                (if resp_language b = ''cpp'' then ''g++ -std=c++17 -O2 -pipe -static -s *.cpp -o main''
                 else ''javac *.java'')
                (path_join EXEC_DIR jobId) (or_default (body_compile_timeout req) 10000) []
                (snd (write_files os (resp_language b) (path_join EXEC_DIR jobId)
                   (case body_files req of None \<Rightarrow> [] | Some xs \<Rightarrow> xs)
                   (snd (mkdirSync os (path_join EXEC_DIR jobId) w)))))))"
proof -
  let ?lang = "toLowerCase (or_empty (body_language req))"
  let ?d = "path_join EXEC_DIR jobId"
  let ?fs = "case body_files req of None \<Rightarrow> [] | Some xs \<Rightarrow> xs"
  let ?ct = "or_default (body_compile_timeout req) 10000"
  let ?rt = "or_default (body_run_timeout req) 3000"
  let ?w1 = "snd (mkdirSync os ?d w)"
  from assms have mk: "mkdir_err os (mach w) ?d = None" by (rule execute_handler_ok)
  with execute_handler_Inr [OF assms]
  have "fst (try_block os ?lang ?d ?fs (batchInputs req) ?ct ?rt ?w1) = Inr (Ok200 b)"
    by (simp add: try_catch_mkdir_ok)
  then obtain w' where "try_block os ?lang ?d ?fs (batchInputs req) ?ct ?rt ?w1 = (Inr (Ok200 b), w')"
    by (cases "try_block os ?lang ?d ?fs (batchInputs req) ?ct ?rt ?w1") simp
  then obtain res w'' where
    hb: "handleBatchExecution os (normalize ?lang) ?d ?fs (batchInputs req) ?ct ?rt ?w1 = (Inr res, w'')"
    and b: "b = \<lparr>resp_language = normalize ?lang, resp_compile = Some (compile res),
          resp_run = (case results res of [] \<Rightarrow> no_run | r # rs \<Rightarrow> r), resp_results = results res\<rparr>"
    by (rule try_block_ok)
  from hb obtain u w2 c rc w3 where
    wf: "write_files os (normalize ?lang) ?d ?fs ?w1 = (Inr u, w2)"
    and cs: "compile_step os (normalize ?lang) ?d ?ct w2 = ((c, rc), w3)"
    and c: "compile res = c"
    by (rule handleBatch_cases)
  from b have l: "resp_language b = normalize ?lang" by simp
  from b have 1: "resp_compile b \<noteq> None" by simp
  have 2: "resp_compile b = Some \<lparr>stdout = [], stderr = [], code = 0, timeMs = None\<rparr>"
    if "\<not> has_compile_phase (resp_language b)"
  proof -
    from that l compile_step_none [of "normalize ?lang" os ?d ?ct w2] cs
    have "c = no_compile" by simp
    with b c show ?thesis by (simp add: no_compile_def)
  qed
  have 3: "resp_compile b =
              Some (fst (runCommand os
                (if resp_language b = ''cpp'' then ''g++ -std=c++17 -O2 -pipe -static -s *.cpp -o main''
                 else ''javac *.java'')
                ?d ?ct [] (snd (write_files os (resp_language b) ?d ?fs ?w1))))"
    if "has_compile_phase (resp_language b)"
  proof -
    from that l have "normalize ?lang = ''cpp'' \<or> normalize ?lang = ''java''"
      by (simp add: has_compile_phase_def)
    then show ?thesis
    proof
      assume n: "normalize ?lang = ''cpp''"
      with cs have "c = fst (runCommand os ''g++ -std=c++17 -O2 -pipe -static -s *.cpp -o main'' ?d ?ct [] w2)"
        by (simp add: compile_step_cpp)
      with b c l n wf show ?thesis by simp
    next
      assume n: "normalize ?lang = ''java''"
      with cs have "c = fst (runCommand os ''javac *.java'' ?d ?ct [] w2)"
        by (simp add: compile_step_java)
      with b c l n wf show ?thesis by simp
    qed
  qed
  from 1 2 3 show ?thesis by blast
qed

text \<open>
  The single-run server: \<open>handleCPP\<close> and \<open>handleJava\<close> return an object with a
  \<open>compile\<close> field, \<open>handlePython\<close> and \<open>handleJS\<close> one without, and the response spreads
  that object. So a response with status 200 has a \<open>compile\<close> field exactly for the
  languages with a compile phase.
\<close>

lemma compile_and_run_has_compile:
  "fst (compile_and_run os jobDir dflt cc rc fs input ct rt w) = Inr res \<Longrightarrow> sr_compile res \<noteq> None"
  by (auto simp add: compile_and_run_def split: prod.splits sum.splits if_splits)

lemma handleCPP_has_compile:
  "fst (handleCPP os jobDir fs input ct rt w) = Inr res \<Longrightarrow> sr_compile res \<noteq> None"
  unfolding handleCPP_def by (rule compile_and_run_has_compile)

lemma handleJava_has_compile:
  "fst (handleJava os jobDir fs input ct rt w) = Inr res \<Longrightarrow> sr_compile res \<noteq> None"
  unfolding handleJava_def by (rule compile_and_run_has_compile)

lemma handlePython_has_no_compile:
  "fst (handlePython os jobDir fs input rt w) = Inr res \<Longrightarrow> sr_compile res = None"
  by (auto simp add: handlePython_def split: prod.splits sum.splits)

lemma handleJS_has_no_compile:
  "fst (handleJS os jobDir fs input rt w) = Inr res \<Longrightarrow> sr_compile res = None"
  by (auto simp add: handleJS_def split: prod.splits sum.splits)

lemma single_try_block_compile:
  assumes "fst (single_try_block os language jobDir fs input ct rt w) = Inr (SingleOk200 b)"
  shows "sb_language b = language \<and>
         (sb_compile b \<noteq> None) = (language = ''cpp'' \<or> language = ''c++'' \<or> language = ''java'')"
proof -
  consider (cpp) "language = ''cpp'' \<or> language = ''c++''"
    | (py) "language = ''python''"
    | (java) "language = ''java''"
    | (js) "language = ''javascript'' \<or> language = ''node'' \<or> language = ''js''"
    | (other) "language \<notin> {''cpp'', ''c++'', ''python'', ''java'', ''javascript'', ''node'', ''js''}"
    by auto
  then show ?thesis
  proof cases
    case cpp
    obtain a w' where h: "handleCPP os jobDir fs input ct rt w = (a, w')"
      by (cases "handleCPP os jobDir fs input ct rt w")
    with assms cpp obtain res where a: "a = Inr res"
      and b: "b = \<lparr>sb_language = language, sb_compile = sr_compile res, sb_run = sr_run res\<rparr>"
      by (auto simp add: single_try_block_def split: sum.splits fault.splits)
    from h a have "sr_compile res \<noteq> None"
      using handleCPP_has_compile [of os jobDir fs input ct rt w res] by simp
    with b cpp show ?thesis by auto
  next
    case py
    obtain a w' where h: "handlePython os jobDir fs input rt w = (a, w')"
      by (cases "handlePython os jobDir fs input rt w")
    with assms py obtain res where a: "a = Inr res"
      and b: "b = \<lparr>sb_language = language, sb_compile = sr_compile res, sb_run = sr_run res\<rparr>"
      by (auto simp add: single_try_block_def split: sum.splits fault.splits)
    from h a have "sr_compile res = None"
      using handlePython_has_no_compile [of os jobDir fs input rt w res] by simp
    with b py show ?thesis by simp
  next
    case java
    obtain a w' where h: "handleJava os jobDir fs input ct rt w = (a, w')"
      by (cases "handleJava os jobDir fs input ct rt w")
    with assms java obtain res where a: "a = Inr res"
      and b: "b = \<lparr>sb_language = language, sb_compile = sr_compile res, sb_run = sr_run res\<rparr>"
      by (auto simp add: single_try_block_def split: sum.splits fault.splits)
    from h a have "sr_compile res \<noteq> None"
      using handleJava_has_compile [of os jobDir fs input ct rt w res] by simp
    with b java show ?thesis by simp
  next
    case js
    obtain a w' where h: "handleJS os jobDir fs input rt w = (a, w')"
      by (cases "handleJS os jobDir fs input rt w")
    with assms js obtain res where a: "a = Inr res"
      and b: "b = \<lparr>sb_language = language, sb_compile = sr_compile res, sb_run = sr_run res\<rparr>"
      by (auto simp add: single_try_block_def split: sum.splits fault.splits)
    from h a have "sr_compile res = None"
      using handleJS_has_no_compile [of os jobDir fs input rt w res] by simp
    with b js show ?thesis by auto
  next
    case other
    with assms show ?thesis by (simp add: single_try_block_def)
  qed
qed

lemma single_compile_field_iff:
  assumes "fst (single_handler os jobId req w) = Inr (SingleOk200 b)"
  shows "(sb_compile b \<noteq> None) =
         (sb_language b = ''cpp'' \<or> sb_language b = ''c++'' \<or> sb_language b = ''java'')"
proof -
  let ?lang = "toLowerCase (or_empty (body_language req))"
  let ?tb = "single_try_block os ?lang (path_join EXEC_DIR jobId)
      (case body_files req of None \<Rightarrow> [] | Some xs \<Rightarrow> xs) (or_empty (body_stdin req))
      (or_default (body_compile_timeout req) 5000) (or_default (body_run_timeout req) 3000)
      (snd (mkdirSync os (path_join EXEC_DIR jobId) w))"
  from assms have "fst ?tb = Inr (SingleOk200 b)"
    by (auto simp add: single_handler_def Let_def split: prod.splits sum.splits)
  from single_try_block_compile [OF this] show ?thesis by simp
qed

text \<open>
  Claim C6 on the batch server. For a python job (a language without a compile phase)
  the batch server answers with a \<open>compile\<close> field, the synthesized object; the
  single-run server answers the same request without one, as the claim says.
\<close>

theorem batch_sends_compile_for_python:
  "\<not> has_compile_phase ''python'' \<and>
   fst (execute_handler echo_os ''job1'' (request_for ''python'' solution_py [''hi'', ''bye'']) boot) =
     Inr (Ok200 \<lparr>resp_language = ''python'',
                 resp_compile = Some \<lparr>stdout = [], stderr = [], code = 0, timeMs = None\<rparr>,
                 resp_run = \<lparr>stdout = ''hi'', stderr = [], code = 0, timeMs = Some 7\<rparr>,
                 resp_results = [\<lparr>stdout = ''hi'', stderr = [], code = 0, timeMs = Some 7\<rparr>,
                                 \<lparr>stdout = ''bye'', stderr = [], code = 0, timeMs = Some 7\<rparr>]\<rparr>) \<and>
   fst (single_handler echo_os ''job1'' (request_for ''python'' solution_py [''hi'', ''bye'']) boot) =
     Inr (SingleOk200 \<lparr>sb_language = ''python'',
                       sb_compile = None,
                       sb_run = Some \<lparr>stdout = [], stderr = [], code = 0, timeMs = Some 7\<rparr>\<rparr>)"
  by (simp add: eval_defs single_handler_def single_try_block_def handlePython_def script_name_def
      endsWith_def echo_os_def solution_py_def has_compile_phase_def)

section \<open>The entry file of a script\<close>

text \<open>
  In the single-run server, \<open>handlePython\<close> and \<open>handleJS\<close> run the last submitted
  file whose name has the extension of the language, and the default name when there is
  none.
\<close>

lemma write_scripts_mainFile:
  "fst (write_scripts os jobDir dflt ext mainFile fs w) = Inr m \<Longrightarrow>
   m = (case filter (\<lambda>n. endsWith n ext) (map (script_name dflt) fs) of
          [] \<Rightarrow> mainFile | x # xs \<Rightarrow> last (x # xs))"
proof (induction fs arbitrary: mainFile w)
  case Nil
  then show ?case by simp
next
  case (Cons f fs)
  let ?n = "script_name dflt f"
  let ?m' = "if endsWith ?n ext then ?n else mainFile"
  obtain a w' where wr: "writeFileSync os (path_join jobDir ?n) (or_empty (content f)) w = (a, w')"
    by (cases "writeFileSync os (path_join jobDir ?n) (or_empty (content f)) w")
  with Cons.prems obtain u where a: "a = Inr u"
    by (cases a) (simp_all add: Let_def)
  with Cons.prems wr have "fst (write_scripts os jobDir dflt ext ?m' fs w') = Inr m"
    by (simp add: Let_def split del: if_split)
  from Cons.IH [OF this] show ?case
    by (simp split: list.splits if_splits)
qed

lemma script_handler_trace:
  assumes "write_scripts os jobDir dflt ext dflt fs w = (Inr m, w')"
  shows "last (trace (snd (runCommand os (cmd @ m) jobDir rt input w'))) =
     Exec (cmd @ entry_file dflt ext (map (script_name dflt) fs)) jobDir rt input"
proof -
  from assms write_scripts_mainFile [of os jobDir dflt ext dflt fs w m]
  have "m = entry_file dflt ext (map (script_name dflt) fs)"
    by (simp add: entry_file_def)
  then show ?thesis by (simp add: runCommand_trace)
qed

lemma handlePython_entry_file:
  assumes "fst (handlePython os jobDir fs input rt w) = Inr r"
  shows "last (trace (snd (handlePython os jobDir fs input rt w))) =
     Exec (''python3 '' @ entry_file ''main.py'' ''.py'' (map (script_name ''main.py'') fs)) jobDir rt input"
proof -
  obtain a w' where ws: "write_scripts os jobDir ''main.py'' ''.py'' ''main.py'' fs w = (a, w')"
    by (cases "write_scripts os jobDir ''main.py'' ''.py'' ''main.py'' fs w")
  with assms obtain m where a: "a = Inr m"
    by (cases a) (simp_all add: handlePython_def)
  from ws a have "snd (handlePython os jobDir fs input rt w) =
      snd (runCommand os (''python3 '' @ m) jobDir rt input w')"
    using await_runCommand_snd [of os "''python3 '' @ m" jobDir rt input w']
    by (auto simp add: handlePython_def split: prod.splits sum.splits)
  with script_handler_trace [of os jobDir "''main.py''" "''.py''" fs w m w' "''python3 ''" rt input] ws a
  show ?thesis by simp
qed

lemma handleJS_entry_file:
  assumes "fst (handleJS os jobDir fs input rt w) = Inr r"
  shows "last (trace (snd (handleJS os jobDir fs input rt w))) =
     Exec (''node '' @ entry_file ''main.js'' ''.js'' (map (script_name ''main.js'') fs)) jobDir rt input"
proof -
  obtain a w' where ws: "write_scripts os jobDir ''main.js'' ''.js'' ''main.js'' fs w = (a, w')"
    by (cases "write_scripts os jobDir ''main.js'' ''.js'' ''main.js'' fs w")
  with assms obtain m where a: "a = Inr m"
    by (cases a) (simp_all add: handleJS_def)
  from ws a have "snd (handleJS os jobDir fs input rt w) =
      snd (runCommand os (''node '' @ m) jobDir rt input w')"
    using await_runCommand_snd [of os "''node '' @ m" jobDir rt input w']
    by (auto simp add: handleJS_def split: prod.splits sum.splits)
  with script_handler_trace [of os jobDir "''main.js''" "''.js''" fs w m w' "''node ''" rt input] ws a
  show ?thesis by simp
qed

lemma batch_run_command_fixed:
  "snd (fst (compile_step os ''python'' jobDir ct w)) = ''python3 main.py'' \<and>
   snd (fst (compile_step os ''javascript'' jobDir ct w)) = ''node main.js''"
  by (simp add: compile_step_def)

text \<open>
  Claim C5 on the batch server. \<open>handleBatchExecution\<close> sets \<open>mainFile\<close> and never reads
  it: the run command of python and of javascript names the default file whatever was
  submitted. For the one file \<open>solution.py\<close>, the single-run handler runs
  \<open>python3 solution.py\<close>, the entry file of the claim, and the batch handler runs
  \<open>python3 main.py\<close>, a file that was not written.
\<close>

theorem batch_ignores_entry_file:
  "entry_file ''main.py'' ''.py'' (map (script_name ''main.py'') [solution_py]) = ''solution.py'' \<and>
   trace (snd (handlePython echo_os ''/tmp/executions/job1'' [solution_py] ''hi'' 3000 boot)) =
     [WriteFile ''/tmp/executions/job1/solution.py'' ''print(input())'',
      Exec ''python3 solution.py'' ''/tmp/executions/job1'' 3000 ''hi''] \<and>
   trace (snd (handleBatchExecution echo_os ''python'' ''/tmp/executions/job1'' [solution_py] [''hi''] 10000 3000 boot)) =
     [WriteFile ''/tmp/executions/job1/solution.py'' ''print(input())'',
      Exec ''python3 main.py'' ''/tmp/executions/job1'' 3000 ''hi''] \<and>
   store (mach (snd (handleBatchExecution echo_os ''python'' ''/tmp/executions/job1'' [solution_py] [''hi''] 10000 3000 boot)))
     ''/tmp/executions/job1/main.py'' = None"
  by (simp add: eval_defs handlePython_def echo_os_def solution_py_def entry_file_def script_name_def endsWith_def)

end
